theory Spec2Isabelle
  imports Main "HOL-Library.Stream" "HOL-Library.AList"
begin

section \<open>The function-resolution and template-rendering engine of the log generator\<close>

text \<open>
  A shallow embedding of \<^verbatim>\<open>src/rlog_generator/utils.py\<close>. Every function of the module
  is a HOL function of the same name; module globals are fields of a state record that is
  passed in and returned; every \<^verbatim>\<open>raise\<close> (explicit, or made by the interpreter) is an
  \<open>Inl\<close> result.
\<close>

subsection \<open>Python values and exceptions\<close>

text \<open>
  The values a YAML document loads to, as far as the module inspects them: it asks whether
  a value is a \<^verbatim>\<open>str\<close> or a \<^verbatim>\<open>list\<close>, whether it is truthy, and whether a mapping has
  a key. A \<^verbatim>\<open>dict\<close> is its list of items in insertion order. Characters are code points
  below 256. Floats are left out.
\<close>

datatype pyval =
    PNone
  | PBool bool
  | PInt int
  | PStr string
  | PList "pyval list"
  | PDict "(pyval \<times> pyval) list"
  | PDateTime int

text \<open>
  The exceptions that can leave the module. \<open>ValueError\<close> carries its message,
  \<open>KeyError\<close> the missing key, \<open>NameError\<close> the unbound name, \<open>ImportError\<close> the module
  name. The module defines no exception class of its own.
\<close>

datatype py_error =
    NameError string
  | TypeError
  | ValueError string
  | KeyError string
  | IndexError
  | AttributeError string
  | ImportError string

text \<open>Truth value testing, as \<^verbatim>\<open>if x:\<close> does it.\<close>

fun truthy :: "pyval \<Rightarrow> bool" where
  "truthy PNone = False"
| "truthy (PBool b) = b"
| "truthy (PInt i) = (i \<noteq> 0)"
| "truthy (PStr s) = (s \<noteq> [])"
| "truthy (PList xs) = (xs \<noteq> [])"
| "truthy (PDict kvs) = (kvs \<noteq> [])"
| "truthy (PDateTime t) = True"

subsection \<open>The shared generator, module attributes, the module state\<close>

text \<open>
  \<^verbatim>\<open>Faker(locale)\<close> is library code: the constructor is taken to return, and the
  generator object is represented by the locale value it was built from. The random sources of the process (the \<^verbatim>\<open>random\<close> module and
  the generator's own) are one stream of draws that is consumed from the front.
\<close>

datatype faker = Faker (locale_of: pyval)

type_synonym rng = "nat stream"

text \<open>
  A function object takes the generator, the positional arguments and the random stream,
  and returns or raises. An attribute of a module is a function, the generator object
  itself (the global \<^verbatim>\<open>fake\<close> is an attribute of the core module once it is bound), or an
  object that cannot be called (a submodule, a constant), with its type name.
\<close>

type_synonym callable = "faker \<Rightarrow> pyval list \<Rightarrow> rng \<Rightarrow> (py_error + pyval) \<times> rng"

datatype attr =
    Function callable
  | GeneratorObject faker
  | NotCallable string

type_synonym namespace = "string \<rightharpoonup> attr"

text \<open>
  The globals of the module that the functions read or write: \<^verbatim>\<open>fake\<close> (unbound until
  \<^verbatim>\<open>load_config\<close> binds it), the other attributes of the module itself, the registry
  \<^verbatim>\<open>provider_functions\<close> (a dict from module name to module, in insertion order), and
  the random stream.
\<close>

record pystate =
  fake :: "faker option"
  core :: namespace
  provider_functions :: "(string \<times> namespace) list"
  random :: rng

text \<open>A module object: the core module (\<^verbatim>\<open>sys.modules[__name__]\<close>) or a provider module.\<close>

datatype module = Core | Provider namespace

text \<open>\<^verbatim>\<open>getattr(module, name)\<close>; \<open>None\<close> is the missing attribute.\<close>

fun getattr :: "pystate \<Rightarrow> module \<Rightarrow> string \<Rightarrow> attr option" where
  "getattr st Core name =
     (if name = ''fake'' then map_option GeneratorObject (fake st) else core st name)"
| "getattr st (Provider ns) name = ns name"

definition hasattr :: "pystate \<Rightarrow> module \<Rightarrow> string \<Rightarrow> bool" where
  "hasattr st m name = (getattr st m name \<noteq> None)"

text \<open>Calling an attribute with the generator first: \<^verbatim>\<open>a(fake, *args)\<close>.\<close>

fun invoke :: "attr \<Rightarrow> faker \<Rightarrow> pyval list \<Rightarrow> rng \<Rightarrow> (py_error + pyval) \<times> rng" where
  "invoke (Function f) g args r = f g args r"
| "invoke (GeneratorObject _) g args r = (Inl TypeError, r)"
| "invoke (NotCallable _) g args r = (Inl TypeError, r)"

subsection \<open>\<^verbatim>\<open>get_function\<close>\<close>

text \<open>
  The closure \<^verbatim>\<open>func_wrapper\<close> captures the module object and the stripped name. Its
  body runs when it is called: it reads the attribute, then the global \<^verbatim>\<open>fake\<close>, then
  calls.
\<close>

datatype func_wrapper = Func_wrapper module string

fun call_wrapper :: "pystate \<Rightarrow> func_wrapper \<Rightarrow> pyval list \<Rightarrow> (py_error + pyval) \<times> pystate" where
  "call_wrapper st (Func_wrapper m name) args =
     (case getattr st m name of
        None \<Rightarrow> (Inl (AttributeError name), st)
      | Some a \<Rightarrow>
          (case fake st of
             None \<Rightarrow> (Inl (NameError ''fake''), st)
           | Some g \<Rightarrow>
               (let (res, r) = invoke a g args (random st) in (res, st\<lparr>random := r\<rparr>))))"

text \<open>
  \<^verbatim>\<open>function_str[len('func_'):]\<close> drops five characters, whatever they are. The loop
  over \<^verbatim>\<open>provider_functions.values()\<close> returns at the first module that has the name.
\<close>

definition not_found_message :: "string \<Rightarrow> string" where
  "not_found_message name = ''Function '' @ name @ '' not found in any provider modules.''"

definition get_function :: "pystate \<Rightarrow> string \<Rightarrow> module \<Rightarrow> py_error + func_wrapper" where
  "get_function st function_str m =
     (let name = drop (length ''func_'') function_str in
      if hasattr st m name then Inr (Func_wrapper m name)
      else
        (case find (\<lambda>ns. hasattr st (Provider ns) name) (map snd (provider_functions st)) of
           Some ns \<Rightarrow> Inr (Func_wrapper (Provider ns) name)
         | None \<Rightarrow> Inl (ValueError (not_found_message name))))"

subsection \<open>\<^verbatim>\<open>exec_function_str\<close>\<close>

text \<open>
  \<^verbatim>\<open>str.split()\<close> without arguments: the maximal runs of characters that are not
  whitespace, in order. Whitespace is what \<^verbatim>\<open>str.isspace\<close> accepts below code point 256.
\<close>

definition is_space :: "char \<Rightarrow> bool" where
  "is_space c = (of_char c \<in> {9, 10, 11, 12, 13, 28, 29, 30, 31, 32, 133, 160 :: nat})"

fun split_from :: "string \<Rightarrow> string \<Rightarrow> string list" where
  "split_from cur [] = (if cur = [] then [] else [rev cur])"
| "split_from cur (c # cs) =
     (if is_space c then (if cur = [] then split_from [] cs else rev cur # split_from [] cs)
      else split_from (c # cur) cs)"

definition split :: "string \<Rightarrow> string list" where
  "split s = split_from [] s"

definition exec_function_str :: "pystate \<Rightarrow> string \<Rightarrow> (py_error + pyval) \<times> pystate" where
  "exec_function_str st function_str =
     (case split function_str of
        [] \<Rightarrow> (Inl IndexError, st)
      | tok # rest \<Rightarrow>
          (case get_function st tok Core of
             Inl e \<Rightarrow> (Inl e, st)
           | Inr func \<Rightarrow> call_wrapper st func (map PStr rest)))"

subsection \<open>\<^verbatim>\<open>get_random_value\<close>\<close>

text \<open>
  \<^verbatim>\<open>random.choice(seq)\<close> raises \<^verbatim>\<open>IndexError\<close> on an empty sequence and otherwise
  returns \<^verbatim>\<open>seq[randbelow(len(seq))]\<close>; the index is the next draw reduced below the
  length.
\<close>

definition choice :: "pystate \<Rightarrow> pyval list \<Rightarrow> (py_error + pyval) \<times> pystate" where
  "choice st seq =
     (if seq = [] then (Inl IndexError, st)
      else (Inr (seq ! (shd (random st) mod length seq)), st\<lparr>random := stl (random st)\<rparr>))"

definition invalid_field_message :: string where
  "invalid_field_message = ''field value can be a string or a list''"

fun get_random_value :: "pystate \<Rightarrow> pyval \<Rightarrow> (py_error + pyval) \<times> pystate" where
  "get_random_value st (PStr s) = exec_function_str st s"
| "get_random_value st (PList xs) = choice st xs"
| "get_random_value st v = (Inl (ValueError invalid_field_message), st)"

subsection \<open>\<^verbatim>\<open>get_template_log\<close>\<close>

text \<open>
  \<^verbatim>\<open>str.format\<close> is the interpreter's. The template is given as the pieces its scanner
  cuts the string into: literal text (with the doubled braces already single) and
  replacement fields. A field names its argument (nothing, a decimal index or a keyword)
  and carries the rest of the field (attribute and index lookups, conversion, format
  specification) as text; \<^verbatim>\<open>"{now} - {user}"\<close> is
  \<open>[Field (Key ''now'') [], Literal '' - '', Field (Key ''user'') []]\<close>. How one value is
  turned into text under that rest is a parameter, \<open>fmt\<close>. Format specifications that
  contain replacement fields are outside the model.
\<close>

datatype arg_name = Auto | Index nat | Key string

datatype piece = Literal string | Field arg_name string

type_synonym format_value = "pyval \<Rightarrow> string \<Rightarrow> py_error + string"

text \<open>Automatic and manual numbering of positional fields cannot be mixed.\<close>

datatype numbering = Unset | Automatic nat | Manual

definition positional :: "pyval list \<Rightarrow> nat \<Rightarrow> py_error + pyval" where
  "positional args i = (if i < length args then Inr (args ! i) else Inl IndexError)"

definition keyword :: "(string \<times> pyval) list \<Rightarrow> string \<Rightarrow> py_error + pyval" where
  "keyword kwargs k = (case map_of kwargs k of None \<Rightarrow> Inl (KeyError k) | Some v \<Rightarrow> Inr v)"

fun get_field_object ::
  "pyval list \<Rightarrow> (string \<times> pyval) list \<Rightarrow> numbering \<Rightarrow> arg_name \<Rightarrow> (py_error + pyval) \<times> numbering"
where
  "get_field_object args kwargs Manual Auto =
     (Inl (ValueError
        ''cannot switch from manual field specification to automatic field numbering''), Manual)"
| "get_field_object args kwargs Unset Auto = (positional args 0, Automatic 1)"
| "get_field_object args kwargs (Automatic i) Auto = (positional args i, Automatic (Suc i))"
| "get_field_object args kwargs (Automatic i) (Index n) =
     (Inl (ValueError
        ''cannot switch from automatic field numbering to manual field specification''),
      Automatic i)"
| "get_field_object args kwargs nb (Index n) = (positional args n, Manual)"
| "get_field_object args kwargs nb (Key k) = (keyword kwargs k, nb)"

fun build_string ::
  "format_value \<Rightarrow> pyval list \<Rightarrow> (string \<times> pyval) list \<Rightarrow> numbering \<Rightarrow> piece list
     \<Rightarrow> py_error + string"
where
  "build_string fmt args kwargs nb [] = Inr []"
| "build_string fmt args kwargs nb (Literal s # ps) =
     (case build_string fmt args kwargs nb ps of
        Inl e \<Rightarrow> Inl e
      | Inr t \<Rightarrow> Inr (s @ t))"
| "build_string fmt args kwargs nb (Field a rest # ps) =
     (case get_field_object args kwargs nb a of
        (Inl e, _) \<Rightarrow> Inl e
      | (Inr obj, nb') \<Rightarrow>
          (case fmt obj rest of
             Inl e \<Rightarrow> Inl e
           | Inr s \<Rightarrow>
               (case build_string fmt args kwargs nb' ps of
                  Inl e \<Rightarrow> Inl e
                | Inr t \<Rightarrow> Inr (s @ t))))"

definition str_format ::
  "format_value \<Rightarrow> piece list \<Rightarrow> pyval list \<Rightarrow> (string \<times> pyval) list \<Rightarrow> py_error + string"
where
  "str_format fmt template args kwargs = build_string fmt args kwargs Unset template"

text \<open>
  The dict comprehension \<^verbatim>\<open>{k: get_random_value(v) for k, v in fields.items()}\<close>:
  the items are resolved in order, each result is stored under its key, and the first
  exception ends the comprehension. Field names are strings. (\<open>flds\<close> is the
  parameter \<^verbatim>\<open>fields\<close>.)
\<close>

fun resolve_fields ::
  "pystate \<Rightarrow> (string \<times> pyval) list \<Rightarrow> (string \<times> pyval) list
     \<Rightarrow> (py_error + (string \<times> pyval) list) \<times> pystate"
where
  "resolve_fields st [] values = (Inr values, st)"
| "resolve_fields st ((k, v) # items) values =
     (case get_random_value st v of
        (Inl e, st') \<Rightarrow> (Inl e, st')
      | (Inr x, st') \<Rightarrow> resolve_fields st' items (AList.update k x values))"

text \<open>\<open>now\<close> is what \<^verbatim>\<open>datetime.datetime.now()\<close> returns at the call.\<close>

definition get_template_log ::
  "format_value \<Rightarrow> pyval \<Rightarrow> pystate \<Rightarrow> piece list \<Rightarrow> (string \<times> pyval) list
     \<Rightarrow> (py_error + string) \<times> pystate"
where
  "get_template_log fmt now st template flds =
     (case resolve_fields st flds [] of
        (Inl e, st') \<Rightarrow> (Inl e, st')
      | (Inr values, st') \<Rightarrow> (str_format fmt template [now] values, st'))"

subsection \<open>\<^verbatim>\<open>load_config\<close>\<close>

text \<open>
  What opening and parsing the file gives: the two exceptions that \<^verbatim>\<open>load_config\<close>
  catches, or the loaded document.
\<close>

datatype file_outcome = FileNotFoundError | YAMLError | Loaded pyval

fun is_substring :: "string \<Rightarrow> string \<Rightarrow> bool" where
  "is_substring p [] = (p = [])"
| "is_substring p (c # cs) = (take (length p) (c # cs) = p \<or> is_substring p cs)"

text \<open>
  \<^verbatim>\<open>'locale' in config\<close>: a key of a dict, an element of a list, a substring of a
  string; a \<^verbatim>\<open>TypeError\<close> for a value that is no container.
\<close>

fun contains_locale :: "pyval \<Rightarrow> py_error + bool" where
  "contains_locale (PDict kvs) = Inr (PStr ''locale'' \<in> set (map fst kvs))"
| "contains_locale (PList xs) = Inr (PStr ''locale'' \<in> set xs)"
| "contains_locale (PStr s) = Inr (is_substring ''locale'' s)"
| "contains_locale v = Inl TypeError"

text \<open>\<^verbatim>\<open>config['locale']\<close>: only a dict can be indexed by a string.\<close>

fun subscript_locale :: "pyval \<Rightarrow> py_error + pyval" where
  "subscript_locale (PDict kvs) =
     (case map_of kvs (PStr ''locale'') of
        None \<Rightarrow> Inl (KeyError ''locale'')
      | Some v \<Rightarrow> Inr v)"
| "subscript_locale v = Inl TypeError"

definition load_config ::
  "(string \<Rightarrow> file_outcome) \<Rightarrow> pystate \<Rightarrow> string \<Rightarrow> (py_error + pyval) \<times> pystate"
where
  "load_config files st yaml_file =
     (case files yaml_file of
        FileNotFoundError \<Rightarrow> (Inr PNone, st)
      | YAMLError \<Rightarrow> (Inr PNone, st)
      | Loaded config \<Rightarrow>
          (case contains_locale config of
             Inl e \<Rightarrow> (Inl e, st)
           | Inr False \<Rightarrow> (Inr config, st)
           | Inr True \<Rightarrow>
               (case subscript_locale config of
                  Inl e \<Rightarrow> (Inl e, st)
                | Inr v \<Rightarrow>
                    if truthy v then (Inr config, st\<lparr>fake := Some (Faker v)\<rparr>)
                    else (Inr config, st))))"

subsection \<open>\<^verbatim>\<open>timestamp\<close>\<close>

text \<open>
  \<open>unix_time g r\<close> stands for \<^verbatim>\<open>round(g.unix_time(start_datetime=timedelta(-30)))\<close>,
  the generator's method, with the random stream it leaves.
\<close>

definition timestamp ::
  "(faker \<Rightarrow> rng \<Rightarrow> int \<times> rng) \<Rightarrow> pystate \<Rightarrow> (py_error + pyval) \<times> pystate"
where
  "timestamp unix_time st =
     (case fake st of
        None \<Rightarrow> (Inl (NameError ''fake''), st)
      | Some g \<Rightarrow> (let (t, r) = unix_time g (random st) in (Inr (PInt t), st\<lparr>random := r\<rparr>)))"

subsection \<open>\<^verbatim>\<open>load_provider_modules\<close>\<close>

text \<open>
  The import system: \<^verbatim>\<open>sys.path\<close> and the cache \<^verbatim>\<open>sys.modules\<close>.
  \<^verbatim>\<open>importlib.import_module(name)\<close> returns the cached module when there is one;
  otherwise it finds the module on the path and executes it (\<open>imp\<close>, a parameter: what
  that gives for a path and a name) and caches the result.
\<close>

record import_state =
  sys_path :: "string list"
  sys_modules :: "string \<rightharpoonup> namespace"

type_synonym importer = "string list \<Rightarrow> string \<Rightarrow> py_error + namespace"

definition import_module ::
  "importer \<Rightarrow> import_state \<Rightarrow> string \<Rightarrow> (py_error + namespace) \<times> import_state"
where
  "import_module imp ist name =
     (case sys_modules ist name of
        Some m \<Rightarrow> (Inr m, ist)
      | None \<Rightarrow>
          (case imp (sys_path ist) name of
             Inl e \<Rightarrow> (Inl e, ist)
           | Inr m \<Rightarrow> (Inr m, ist\<lparr>sys_modules := (sys_modules ist)(name \<mapsto> m)\<rparr>)))"

definition endswith :: "string \<Rightarrow> string \<Rightarrow> bool" where
  "endswith s suffix =
     (length suffix \<le> length s \<and> drop (length s - length suffix) s = suffix)"

text \<open>
  The loop over \<^verbatim>\<open>os.listdir(providers_dir)\<close>; \<^verbatim>\<open>provider_modules[module_name] =
  module\<close> replaces the value of a key that is there and appends a new key.
\<close>

fun load_loop ::
  "importer \<Rightarrow> string list \<Rightarrow> (string \<times> namespace) list \<Rightarrow> import_state
     \<Rightarrow> (py_error + (string \<times> namespace) list) \<times> import_state"
where
  "load_loop imp [] provider_modules ist = (Inr provider_modules, ist)"
| "load_loop imp (filename # rest) provider_modules ist =
     (if endswith filename ''.py'' \<and> filename \<noteq> ''__init__.py'' then
        (let module_name = take (length filename - 3) filename in
         case import_module imp ist module_name of
           (Inl e, ist') \<Rightarrow> (Inl e, ist')
         | (Inr m, ist') \<Rightarrow>
             load_loop imp rest (AList.update module_name m provider_modules) ist')
      else load_loop imp rest provider_modules ist)"

text \<open>
  \<open>providers_dir\<close> is the \<^verbatim>\<open>providers\<close> directory beside the module and \<open>listing\<close>
  what \<^verbatim>\<open>os.listdir\<close> returns for it.
\<close>

definition load_provider_modules ::
  "importer \<Rightarrow> string \<Rightarrow> string list \<Rightarrow> import_state
     \<Rightarrow> (py_error + (string \<times> namespace) list) \<times> import_state"
where
  "load_provider_modules imp providers_dir listing ist =
     load_loop imp listing [] (ist\<lparr>sys_path := providers_dir # sys_path ist\<rparr>)"

subsection \<open>Stub functions and a stub state\<close>

text \<open>
  Two provider-style functions for the examples: \<open>echo\<close> returns the locale of the
  generator it receives followed by its arguments, \<open>shout\<close> returns a fixed string. The
  stub state has \<open>echo\<close> in the core namespace, a provider module \<^verbatim>\<open>net\<close> and a provider
  module \<^verbatim>\<open>web\<close> that also defines the name \<^verbatim>\<open>echo\<close>.
\<close>

definition echo :: callable where
  "echo g args r = (Inr (PList (locale_of g # args)), r)"

definition shout :: callable where
  "shout g args r = (Inr (PStr ''provider''), r)"

definition stub_state :: pystate where
  "stub_state =
     \<lparr>fake = Some (Faker (PStr ''en_US'')),
      core = [''echo'' \<mapsto> Function echo],
      provider_functions =
        [(''net'', [''randip'' \<mapsto> Function shout]),
         (''web'', [''echo'' \<mapsto> Function shout, ''randuri'' \<mapsto> Function shout])],
      random = sconst 0\<rparr>"

definition blank_state :: pystate where
  "blank_state = \<lparr>fake = None, core = Map.empty, provider_functions = [], random = fromN 1\<rparr>"

text \<open>
  Configuration files: two with a locale, one whose locale is the empty string, one that
  does not parse; any other path does not exist.
\<close>

definition stub_files :: "string \<Rightarrow> file_outcome" where
  "stub_files yaml_file =
     (if yaml_file = ''fr.yml'' then Loaded (PDict [(PStr ''locale'', PStr ''fr_FR'')])
      else if yaml_file = ''de.yml'' then
        Loaded (PDict [(PStr ''patterns'', PList []), (PStr ''locale'', PStr ''de_DE'')])
      else if yaml_file = ''plain.yml'' then
        Loaded (PDict [(PStr ''patterns'', PList []), (PStr ''locale'', PStr [])])
      else if yaml_file = ''broken.yml'' then YAMLError
      else FileNotFoundError)"

text \<open>A value formatter that prints a string as it is and anything else as a star.\<close>

definition plain :: format_value where
  "plain v rest = (case v of PStr s \<Rightarrow> Inr s | _ \<Rightarrow> Inr ''*'')"

text \<open>An import system that finds the modules \<^verbatim>\<open>net\<close> and \<^verbatim>\<open>web\<close> and no other.\<close>

definition stub_importer :: importer where
  "stub_importer path name =
     (if name = ''net'' then Inr [''randip'' \<mapsto> Function shout]
      else if name = ''web'' then
        Inr [''echo'' \<mapsto> Function shout, ''randuri'' \<mapsto> Function shout]
      else Inl (ImportError name))"

section \<open>Properties\<close>

subsection \<open>Splitting on whitespace\<close>

lemma split_from_spaces: "\<forall>c\<in>set s. is_space c \<Longrightarrow> split_from [] s = []"
  by (induction s) auto

lemma split_from_word:
  "\<forall>c\<in>set w. \<not> is_space c \<Longrightarrow> split_from cur (w @ rest) = split_from (rev w @ cur) rest"
  by (induction w arbitrary: cur) auto

lemma split_from_last_word:
  assumes "w \<noteq> []" "\<forall>c\<in>set w. \<not> is_space c"
  shows "split_from [] w = [w]"
  using split_from_word [OF assms(2), of "[]" "[]"] assms(1) by simp

lemma split_from_next_word:
  assumes "w \<noteq> []" "\<forall>c\<in>set w. \<not> is_space c" "is_space sp"
  shows "split_from [] (w @ sp # rest) = w # split_from [] rest"
  using split_from_word [OF assms(2), of "[]" "sp # rest"] assms(1,3) by simp

lemma split_words:
  assumes "is_space sp"
  shows "w \<noteq> [] \<Longrightarrow> \<forall>c\<in>set w. \<not> is_space c \<Longrightarrow>
    \<forall>a\<in>set args. a \<noteq> [] \<and> (\<forall>c\<in>set a. \<not> is_space c) \<Longrightarrow>
    split (w @ concat (map ((#) sp) args)) = w # args"
proof (induction args arbitrary: w)
  case Nil
  then show ?case by (simp add: split_def split_from_last_word)
next
  case (Cons a args)
  have "split (a @ concat (map ((#) sp) args)) = a # args"
    using Cons.IH [of a] Cons.prems(3) by simp
  then show ?case
    using split_from_next_word [OF Cons.prems(1,2) assms, of "a @ concat (map ((#) sp) args)"]
    by (simp add: split_def)
qed

lemma func_prefix_no_space: "\<forall>c\<in>set ''func_''. \<not> is_space c"
  by (simp add: is_space_def)

subsection \<open>Resolving a function token\<close>

lemma find_first:
  "\<forall>x\<in>set pre. \<not> P x \<Longrightarrow> P y \<Longrightarrow> find P (pre @ y # post) = Some y"
  by (induction pre) auto

lemma get_function_unfold:
  "get_function st tok m =
     (if hasattr st m (drop 5 tok) then Inr (Func_wrapper m (drop 5 tok))
      else
        (case find (\<lambda>ns. hasattr st (Provider ns) (drop 5 tok))
                (map snd (provider_functions st)) of
           Some ns \<Rightarrow> Inr (Func_wrapper (Provider ns) (drop 5 tok))
         | None \<Rightarrow>
             Inl (ValueError
                   (''Function '' @ drop 5 tok @ '' not found in any provider modules.''))))"
proof -
  have "length ''func_'' = 5" by simp
  then show ?thesis
    unfolding get_function_def not_found_message_def Let_def by presburger
qed

lemma get_function_core:
  "getattr st Core (drop 5 tok) = Some a \<Longrightarrow>
     get_function st tok Core = Inr (Func_wrapper Core (drop 5 tok))"
  by (simp add: get_function_unfold hasattr_def del: getattr.simps)

lemma get_function_provider:
  assumes "getattr st Core (drop 5 tok) = None"
    and "provider_functions st = pre @ (k, ns) # post"
    and "\<forall>p\<in>set pre. snd p (drop 5 tok) = None"
    and "ns (drop 5 tok) = Some b"
  shows "get_function st tok Core = Inr (Func_wrapper (Provider ns) (drop 5 tok))"
proof -
  have "find (\<lambda>ns. hasattr st (Provider ns) (drop 5 tok))
          (map snd pre @ ns # map snd post) = Some ns"
    by (rule find_first) (use assms(3,4) in \<open>auto simp: hasattr_def\<close>)
  then show ?thesis
    using assms(1,2) by (simp add: get_function_unfold hasattr_def del: getattr.simps)
qed

lemma get_function_absent:
  assumes "getattr st Core (drop 5 tok) = None"
    and "\<forall>p\<in>set (provider_functions st). snd p (drop 5 tok) = None"
  shows "get_function st tok Core =
    Inl (ValueError (''Function '' @ drop 5 tok @ '' not found in any provider modules.''))"
proof -
  have "find (\<lambda>ns. hasattr st (Provider ns) (drop 5 tok))
          (map snd (provider_functions st)) = None"
    using assms(2) by (auto simp: find_None_iff hasattr_def)
  then show ?thesis
    using assms(1) by (simp add: get_function_unfold hasattr_def del: getattr.simps)
qed

lemma get_function_error_absent:
  assumes "get_function st tok Core = Inl e"
  shows "getattr st Core (drop 5 tok) = None \<and>
    (\<forall>p\<in>set (provider_functions st). snd p (drop 5 tok) = None)"
  using assms
  by (fastforce simp: get_function_unfold hasattr_def find_None_iff
        simp del: getattr.simps(1) split: if_splits option.splits)

lemma call_wrapper_invoke:
  "getattr st m name = Some a \<Longrightarrow> fake st = Some g \<Longrightarrow>
   call_wrapper st (Func_wrapper m name) args =
     (let (res, r) = invoke a g args (random st) in (res, st\<lparr>random := r\<rparr>))"
  by (simp del: getattr.simps)

subsection \<open>Function specifications\<close>

text \<open>
  C1. A function specification \<^verbatim>\<open>"func_X a b ..."\<close> (the token, then arguments each
  after one space; \<open>X\<close> and the arguments free of whitespace, the arguments not empty)
  whose name \<open>X\<close> is an attribute \<open>x\<close> of the core module is resolved by calling \<open>x\<close>
  with the shared generator \<open>g\<close> first and then the argument tokens, as strings and
  unconverted; what the call returns or raises is the result, and the state changes only
  by the random draws the call made.
\<close>

theorem resolve_core_function:
  assumes "\<forall>c\<in>set X. \<not> is_space c"
    and "\<forall>a\<in>set args. a \<noteq> [] \<and> (\<forall>c\<in>set a. \<not> is_space c)"
    and "getattr st Core X = Some x"
    and "fake st = Some g"
  shows "get_random_value st (PStr (''func_'' @ X @ concat (map ((#) CHR '' '') args))) =
           (let (res, r) = invoke x g (map PStr args) (random st) in (res, st\<lparr>random := r\<rparr>))"
proof -
  define tok where "tok = ''func_'' @ X"
  have sp: "is_space CHR '' ''" by (simp add: is_space_def)
  have w: "\<forall>c\<in>set tok. \<not> is_space c"
    using assms(1) func_prefix_no_space by (auto simp: tok_def)
  have ne: "tok \<noteq> []" by (simp add: tok_def)
  have toks: "split (tok @ concat (map ((#) CHR '' '') args)) = tok # args"
    by (rule split_words [OF sp ne w assms(2)])
  have name: "drop 5 tok = X" by (simp add: tok_def)
  have res: "get_function st tok Core = Inr (Func_wrapper Core X)"
    using get_function_core [of st tok x] assms(3) by (simp add: name del: getattr.simps)
  have "exec_function_str st (tok @ concat (map ((#) CHR '' '') args)) =
          call_wrapper st (Func_wrapper Core X) (map PStr args)"
    unfolding exec_function_str_def toks by (simp add: res)
  also have "\<dots> =
      (let (res, r) = invoke x g (map PStr args) (random st) in (res, st\<lparr>random := r\<rparr>))"
    by (rule call_wrapper_invoke [OF assms(3,4)])
  finally show ?thesis by (simp add: tok_def)
qed

theorem resolve_core_function_witness:
  "get_random_value stub_state (PStr ''func_echo a b'') =
     (Inr (PList [PStr ''en_US'', PStr ''a'', PStr ''b'']), stub_state)"
  using resolve_core_function [of "''echo''" "[''a'', ''b'']" stub_state "Function echo"
      "Faker (PStr ''en_US'')"]
  by (simp add: is_space_def echo_def stub_state_def)

text \<open>
  C3. The name is the token without its first five characters. If the core module has the
  name, the wrapper is bound to the core module whatever the provider modules define, and
  a call of it invokes the core attribute. If the core module lacks the name, the wrapper
  is bound to the first module of the registry, in registry order, that has it.
\<close>

theorem resolution_order:
  "(getattr st Core (drop 5 tok) = Some a \<longrightarrow>
      get_function st tok Core = Inr (Func_wrapper Core (drop 5 tok)) \<and>
      (fake st = Some g \<longrightarrow>
         call_wrapper st (Func_wrapper Core (drop 5 tok)) args =
           (let (res, r) = invoke a g args (random st) in (res, st\<lparr>random := r\<rparr>)))) \<and>
   (getattr st Core (drop 5 tok) = None \<and> provider_functions st = pre @ (k, ns) # post \<and>
      (\<forall>p\<in>set pre. snd p (drop 5 tok) = None) \<and> ns (drop 5 tok) = Some b \<longrightarrow>
      get_function st tok Core = Inr (Func_wrapper (Provider ns) (drop 5 tok)))"
  using get_function_core [of st tok a] get_function_provider [of st tok pre k ns post b]
    call_wrapper_invoke [of st Core "drop 5 tok" a g args]
  by blast

theorem resolution_order_witness:
  "get_function stub_state ''func_echo'' Core = Inr (Func_wrapper Core ''echo'') \<and>
   call_wrapper stub_state (Func_wrapper Core ''echo'') [PStr ''x''] =
     (Inr (PList [PStr ''en_US'', PStr ''x'']), stub_state) \<and>
   get_function stub_state ''func_randuri'' Core =
     Inr (Func_wrapper
           (Provider [''echo'' \<mapsto> Function shout, ''randuri'' \<mapsto> Function shout])
           ''randuri'')"
  using resolution_order [of stub_state "''func_echo''" "Function echo"
      "Faker (PStr ''en_US'')" "[PStr ''x'']" "[]" "''x''" Map.empty "[]" "Function echo"]
    resolution_order [of stub_state "''func_randuri''" "Function echo"
      "Faker (PStr ''en_US'')" "[]"
      "[(''net'', [''randip'' \<mapsto> Function shout])]" "''web''"
      "[''echo'' \<mapsto> Function shout, ''randuri'' \<mapsto> Function shout]" "[]" "Function shout"]
  by (simp add: stub_state_def echo_def)

text \<open>
  C4, as the code has it. A token whose name (the token without its first five
  characters) is an attribute neither of the core module nor of any registered provider
  module makes \<^verbatim>\<open>get_function\<close> raise a \<^verbatim>\<open>ValueError\<close> whose message names that
  stripped name; and \<^verbatim>\<open>get_function\<close> raises only then.
\<close>

theorem function_not_found:
  "(getattr st Core (drop 5 tok) = None \<and>
      (\<forall>p\<in>set (provider_functions st). snd p (drop 5 tok) = None) \<longrightarrow>
      get_function st tok Core =
        Inl (ValueError
              (''Function '' @ drop 5 tok @ '' not found in any provider modules.''))) \<and>
   ((\<exists>e. get_function st tok Core = Inl e) \<longrightarrow>
      getattr st Core (drop 5 tok) = None \<and>
      (\<forall>p\<in>set (provider_functions st). snd p (drop 5 tok) = None))"
  using get_function_absent [of st tok] get_function_error_absent [of st tok]
  by blast

theorem function_not_found_witness:
  "get_function stub_state ''func_doesNotExist'' Core =
     Inl (ValueError ''Function doesNotExist not found in any provider modules.'') \<and>
   getattr stub_state Core ''doesNotExist'' = None"
  using function_not_found [of stub_state "''func_doesNotExist''"]
  by (simp add: stub_state_def)

text \<open>
  The message for the token \<^verbatim>\<open>func_doesNotExist\<close> is built from \<^verbatim>\<open>doesNotExist\<close>: the
  token as supplied does not occur in it.
\<close>

theorem function_not_found_counterexample:
  "get_function blank_state ''func_doesNotExist'' Core =
     Inl (ValueError ''Function doesNotExist not found in any provider modules.'') \<and>
   \<not> is_substring ''func_doesNotExist''
        ''Function doesNotExist not found in any provider modules.''"
  by (simp add: get_function_unfold hasattr_def blank_state_def)

subsection \<open>Field specifications\<close>

text \<open>
  C2. For a literal list that is not empty, \<^verbatim>\<open>get_random_value\<close> returns, and what it
  returns is an element of the list.
\<close>

theorem literal_choice_member:
  "L \<noteq> [] \<Longrightarrow> \<exists>v. fst (get_random_value st (PList L)) = Inr v \<and> v \<in> set L"
  by (simp add: choice_def)

theorem literal_choice_member_witness:
  "fst (get_random_value blank_state (PList [PStr ''alice'', PStr ''bob''])) \<in>
     {Inr (PStr ''alice''), Inr (PStr ''bob'')}"
  using literal_choice_member [of "[PStr ''alice'', PStr ''bob'']" blank_state]
  by auto

text \<open>
  C6. A field value that is neither a string nor a list makes \<^verbatim>\<open>get_random_value\<close>
  raise the \<^verbatim>\<open>ValueError\<close> \<^verbatim>\<open>field value can be a string or a list\<close> at once: nothing
  is resolved or drawn, the state is as before.
\<close>

theorem invalid_field_specification:
  "(\<forall>s. v \<noteq> PStr s) \<Longrightarrow> (\<forall>xs. v \<noteq> PList xs) \<Longrightarrow>
   get_random_value st v = (Inl (ValueError ''field value can be a string or a list''), st)"
  by (cases v) (simp_all add: invalid_field_message_def)

theorem invalid_field_specification_witness:
  "get_random_value stub_state (PInt 5) =
     (Inl (ValueError ''field value can be a string or a list''), stub_state) \<and>
   get_random_value stub_state (PDict [(PStr ''a'', PStr ''func_echo'')]) =
     (Inl (ValueError ''field value can be a string or a list''), stub_state)"
  using invalid_field_specification [of "PInt 5" stub_state]
    invalid_field_specification [of "PDict [(PStr ''a'', PStr ''func_echo'')]" stub_state]
  by simp

text \<open>
  C9. A field value that is the empty string, or a string of whitespace only, takes the
  string branch; the token list is empty, and reading its first element raises
  \<^verbatim>\<open>IndexError\<close>, not the \<^verbatim>\<open>ValueError\<close> of an invalid field value.
\<close>

theorem blank_function_string:
  "\<forall>c\<in>set s. is_space c \<Longrightarrow>
     get_random_value st (PStr s) = (Inl IndexError, st) \<and>
     fst (get_random_value st (PStr s)) \<noteq> Inl (ValueError invalid_field_message)"
  by (simp add: exec_function_str_def split_def split_from_spaces)

theorem blank_function_string_witness:
  "get_random_value stub_state (PStr []) = (Inl IndexError, stub_state) \<and>
   get_random_value stub_state (PStr [CHR '' '', CHR 0x09, CHR '' '']) =
     (Inl IndexError, stub_state)"
  using blank_function_string [of "[]" stub_state]
    blank_function_string [of "[CHR '' '', CHR 0x09, CHR '' '']" stub_state]
  by (simp add: is_space_def)

subsection \<open>The shared generator\<close>

lemma load_config_locale:
  assumes "files p = Loaded (PDict kvs)" "map_of kvs (PStr ''locale'') = Some v" "truthy v"
  shows "load_config files st p = (Inr (PDict kvs), st\<lparr>fake := Some (Faker v)\<rparr>)"
proof -
  have "PStr ''locale'' \<in> fst ` set kvs"
    using assms(2) by (metis map_of_eq_None_iff option.distinct(1))
  then show ?thesis
    using assms by (simp add: load_config_def)
qed

lemma load_config_changes:
  assumes "snd (load_config files st p) \<noteq> st"
  shows "\<exists>kvs v. files p = Loaded (PDict kvs) \<and> map_of kvs (PStr ''locale'') = Some v \<and> truthy v"
proof (cases "files p")
  case (Loaded config)
  show ?thesis
  proof (cases config)
    case (PDict kvs)
    with Loaded assms show ?thesis
      by (auto simp: load_config_def split: option.splits if_splits bool.splits)
  qed (use Loaded assms in \<open>auto simp: load_config_def split: bool.splits\<close>)
qed (use assms in \<open>auto simp: load_config_def\<close>)

lemma call_wrapper_fake: "fake (snd (call_wrapper st w args)) = fake st"
  by (cases w) (simp split: option.splits prod.splits)

lemma get_function_has:
  "get_function st tok m = Inr (Func_wrapper m' n) \<Longrightarrow> getattr st m' n \<noteq> None"
  by (auto simp: get_function_def hasattr_def Let_def find_Some_iff simp del: getattr.simps(1)
      split: if_splits option.splits)

lemma exec_function_str_fake: "fake (snd (exec_function_str st s)) = fake st"
  by (simp add: exec_function_str_def call_wrapper_fake del: call_wrapper.simps split: list.splits sum.splits)

lemma get_random_value_fake: "fake (snd (get_random_value st v)) = fake st"
  by (cases v) (simp_all add: exec_function_str_fake choice_def)

lemma resolve_fields_fake: "fake (snd (resolve_fields st flds vals)) = fake st"
proof (induction flds arbitrary: st vals)
  case Nil
  show ?case by simp
next
  case (Cons kv flds)
  obtain k v where kv: "kv = (k, v)" by (cases kv)
  obtain res st' where r: "get_random_value st v = (res, st')" by (cases "get_random_value st v")
  have "fake st' = fake st" using get_random_value_fake [of st v] r by simp
  then show ?case using Cons.IH [of st'] kv r by (cases res) simp_all
qed

lemma get_template_log_fake: "fake (snd (get_template_log fmt now st t flds)) = fake st"
proof -
  obtain res st' where r: "resolve_fields st flds [] = (res, st')" by (cases "resolve_fields st flds []")
  have "fake st' = fake st" using resolve_fields_fake [of st flds "[]"] r by simp
  then show ?thesis using r by (cases res) (simp_all add: get_template_log_def)
qed

lemma timestamp_fake: "fake (snd (timestamp ut st)) = fake st"
  by (simp add: timestamp_def split: option.splits prod.splits)

lemma call_wrapper_unbound:
  assumes "fake st = None" "get_function st tok m = Inr w"
  shows "call_wrapper st w args = (Inl (NameError ''fake''), st)"
proof -
  obtain m' n where w: "w = Func_wrapper m' n" by (cases w)
  then obtain a where "getattr st m' n = Some a"
    using get_function_has [of st tok m m' n] assms(2) by auto
  then show ?thesis using assms(1) w by (simp del: getattr.simps)
qed

lemma exec_function_str_unbound:
  assumes "fake st = None"
  shows "\<exists>e. exec_function_str st s = (Inl e, st)"
proof (cases "split s")
  case Nil
  then show ?thesis by (simp add: exec_function_str_def)
next
  case (Cons tok rest)
  show ?thesis
  proof (cases "get_function st tok Core")
    case (Inl e)
    with Cons show ?thesis by (simp add: exec_function_str_def)
  next
    case (Inr w)
    with Cons call_wrapper_unbound [OF assms Inr] show ?thesis
      by (simp add: exec_function_str_def del: call_wrapper.simps)
  qed
qed

text \<open>
  C7. A load reassigns the shared generator exactly when the document is a mapping with a
  key \<^verbatim>\<open>locale\<close> whose value is truthy (for a string or a list: not empty). Then the
  generator is the one built from that value, a later load with a locale replaces it, and
  a wrapper called in the state after the load passes the new generator as first argument.
  Any other load (no such key, an empty value, a missing or malformed file, an exception)
  leaves the whole state as it was.
\<close>

theorem locale_reassigns_generator:
  "(files p = Loaded (PDict kvs) \<and> map_of kvs (PStr ''locale'') = Some v \<and> truthy v \<longrightarrow>
      load_config files st p = (Inr (PDict kvs), st\<lparr>fake := Some (Faker v)\<rparr>) \<and>
      (files p' = Loaded (PDict kvs') \<and> map_of kvs' (PStr ''locale'') = Some v' \<and> truthy v' \<longrightarrow>
         fake (snd (load_config files (snd (load_config files st p)) p')) = Some (Faker v')) \<and>
      (getattr (snd (load_config files st p)) m name = Some a \<longrightarrow>
         call_wrapper (snd (load_config files st p)) (Func_wrapper m name) args =
           (let (res, r) = invoke a (Faker v) args (random st)
            in (res, st\<lparr>fake := Some (Faker v), random := r\<rparr>)))) \<and>
   (\<not> (\<exists>kvs v. files p = Loaded (PDict kvs) \<and> map_of kvs (PStr ''locale'') = Some v \<and> truthy v) \<longrightarrow>
      snd (load_config files st p) = st)"
proof (intro conjI impI)
  assume "\<not> (\<exists>kvs v. files p = Loaded (PDict kvs) \<and> map_of kvs (PStr ''locale'') = Some v \<and> truthy v)"
  then show "snd (load_config files st p) = st"
    using load_config_changes [of files st p] by blast
next
  assume h: "files p = Loaded (PDict kvs) \<and> map_of kvs (PStr ''locale'') = Some v \<and> truthy v"
  then show l: "load_config files st p = (Inr (PDict kvs), st\<lparr>fake := Some (Faker v)\<rparr>)"
    using load_config_locale by blast
  {
    assume "files p' = Loaded (PDict kvs') \<and> map_of kvs' (PStr ''locale'') = Some v' \<and> truthy v'"
    then show "fake (snd (load_config files (snd (load_config files st p)) p')) = Some (Faker v')"
      using load_config_locale [of files p' kvs' v'] by simp
  }
  {
    assume "getattr (snd (load_config files st p)) m name = Some a"
    then show "call_wrapper (snd (load_config files st p)) (Func_wrapper m name) args =
           (let (res, r) = invoke a (Faker v) args (random st)
            in (res, st\<lparr>fake := Some (Faker v), random := r\<rparr>))"
      using call_wrapper_invoke [of "snd (load_config files st p)" m name a "Faker v" args]
      by (simp add: l split: prod.splits)
  }
qed

theorem locale_reassigns_generator_witness:
  "load_config stub_files stub_state ''fr.yml'' =
     (Inr (PDict [(PStr ''locale'', PStr ''fr_FR'')]), stub_state\<lparr>fake := Some (Faker (PStr ''fr_FR''))\<rparr>) \<and>
   fake (snd (load_config stub_files (snd (load_config stub_files stub_state ''fr.yml'')) ''de.yml'')) =
     Some (Faker (PStr ''de_DE'')) \<and>
   call_wrapper (snd (load_config stub_files stub_state ''fr.yml'')) (Func_wrapper Core ''echo'') [PStr ''x''] =
     (Inr (PList [PStr ''fr_FR'', PStr ''x'']), stub_state\<lparr>fake := Some (Faker (PStr ''fr_FR''))\<rparr>) \<and>
   snd (load_config stub_files stub_state ''plain.yml'') = stub_state \<and>
   snd (load_config stub_files stub_state ''missing.yml'') = stub_state"
  using locale_reassigns_generator [of stub_files "''fr.yml''" "[(PStr ''locale'', PStr ''fr_FR'')]"
      "PStr ''fr_FR''" stub_state "''de.yml''"
      "[(PStr ''patterns'', PList []), (PStr ''locale'', PStr ''de_DE'')]" "PStr ''de_DE''"
      Core "''echo''" "Function echo" "[PStr ''x'']"]
    locale_reassigns_generator [of stub_files "''plain.yml''" _ _ stub_state]
    locale_reassigns_generator [of stub_files "''missing.yml''" _ _ stub_state]
  by (simp add: stub_files_def stub_state_def echo_def load_config_def)

text \<open>
  C10. Resolving a field, rendering a template and \<^verbatim>\<open>timestamp\<close> leave \<^verbatim>\<open>fake\<close> as it
  is, and \<^verbatim>\<open>load_config\<close> changes it only for a mapping with a truthy \<^verbatim>\<open>locale\<close>. While
  \<^verbatim>\<open>fake\<close> is unbound, calling a wrapper that \<^verbatim>\<open>get_function\<close> returned raises
  \<^verbatim>\<open>NameError\<close>, so does \<^verbatim>\<open>timestamp\<close>, and no function specification resolves to a
  value.
\<close>

theorem generator_unbound:
  "fake (snd (get_random_value st v)) = fake st \<and>
   fake (snd (get_template_log fmt now st t flds)) = fake st \<and>
   fake (snd (timestamp ut st)) = fake st \<and>
   (fake (snd (load_config files st p)) \<noteq> fake st \<longrightarrow>
      (\<exists>kvs l. files p = Loaded (PDict kvs) \<and> map_of kvs (PStr ''locale'') = Some l \<and> truthy l)) \<and>
   (fake st = None \<longrightarrow>
      (get_function st tok Core = Inr w \<longrightarrow>
         call_wrapper st w args = (Inl (NameError ''fake''), st)) \<and>
      timestamp ut st = (Inl (NameError ''fake''), st) \<and>
      (\<exists>e. get_random_value st (PStr s) = (Inl e, st)))"
proof -
  have "fake (snd (load_config files st p)) \<noteq> fake st \<Longrightarrow> snd (load_config files st p) \<noteq> st"
    by auto
  then show ?thesis
    using get_random_value_fake [of st v] get_template_log_fake [of fmt now st t flds]
      timestamp_fake [of ut st] load_config_changes [of files st p]
      call_wrapper_unbound [of st tok Core w args] exec_function_str_unbound [of st s]
    by (auto simp: timestamp_def)
qed

theorem generator_unbound_witness:
  "call_wrapper (stub_state\<lparr>fake := None\<rparr>) (Func_wrapper Core ''echo'') [] =
     (Inl (NameError ''fake''), stub_state\<lparr>fake := None\<rparr>) \<and>
   timestamp (\<lambda>g r. (0, r)) (stub_state\<lparr>fake := None\<rparr>) =
     (Inl (NameError ''fake''), stub_state\<lparr>fake := None\<rparr>) \<and>
   get_random_value (stub_state\<lparr>fake := None\<rparr>) (PStr ''func_echo a'') =
     (Inl (NameError ''fake''), stub_state\<lparr>fake := None\<rparr>) \<and>
   fake (snd (load_config stub_files (stub_state\<lparr>fake := None\<rparr>) ''plain.yml'')) = None \<and>
   fake (snd (load_config stub_files (stub_state\<lparr>fake := None\<rparr>) ''fr.yml'')) = Some (Faker (PStr ''fr_FR''))"
  using generator_unbound [of "stub_state\<lparr>fake := None\<rparr>" "PStr ''func_echo a''" _ _ _ _
        "\<lambda>g r. (0, r)" stub_files "''plain.yml''" "''func_echo''" "Func_wrapper Core ''echo''" "[]" "''func_echo a''"]
     generator_unbound [of "stub_state\<lparr>fake := None\<rparr>" _ _ _ _ _ _  stub_files "''fr.yml''"]
  by (simp add: stub_files_def stub_state_def get_function_def hasattr_def exec_function_str_def
        split_def is_space_def timestamp_def load_config_def)

subsection \<open>Rendering a template\<close>

lemma resolve_fields_keys:
  "resolve_fields st flds acc = (Inr vals, st') \<Longrightarrow>
     fst ` set vals = fst ` set acc \<union> fst ` set flds"
proof (induction flds arbitrary: st acc)
  case Nil
  then show ?case by simp
next
  case (Cons kv flds)
  obtain k v where kv: "kv = (k, v)" by (cases kv)
  obtain res st1 where r: "get_random_value st v = (res, st1)"
    by (cases "get_random_value st v")
  show ?case
  proof (cases res)
    case (Inl e)
    with Cons.prems kv r show ?thesis by simp
  next
    case (Inr x)
    with Cons.prems kv r have "resolve_fields st1 flds (AList.update k x acc) = (Inr vals, st')"
      by simp
    from Cons.IH [OF this] show ?thesis
      by (auto simp: kv AList.dom_update)
  qed
qed

lemma resolve_fields_append:
  "resolve_fields st (flds @ [(k, v)]) acc =
     (case resolve_fields st flds acc of
        (Inl e, st') \<Rightarrow> (Inl e, st')
      | (Inr vals, st') \<Rightarrow>
          (case get_random_value st' v of
             (Inl e, st'') \<Rightarrow> (Inl e, st'')
           | (Inr x, st'') \<Rightarrow> (Inr (AList.update k x vals), st'')))"
proof (induction flds arbitrary: st acc)
  case Nil
  show ?case by (simp split: prod.splits sum.splits)
next
  case (Cons kv flds)
  obtain k' v' where kv: "kv = (k', v')" by (cases kv)
  show ?case
    by (simp add: kv Cons.IH split: prod.splits sum.splits)
qed

lemma build_string_missing_key:
  "Field (Key n) rest \<in> set t \<Longrightarrow> map_of kw n = None \<Longrightarrow>
     isl (build_string fmt args kw nb t)"
proof (induction t arbitrary: nb)
  case Nil
  then show ?case by simp
next
  case (Cons p t)
  show ?case
  proof (cases "p = Field (Key n) rest")
    case True
    with Cons.prems(2) show ?thesis by (simp add: keyword_def)
  next
    case False
    with Cons.prems have "Field (Key n) rest \<in> set t" by simp
    then have ih: "\<And>nb. isl (build_string fmt args kw nb t)"
      using Cons.IH Cons.prems(2) by blast
    show ?thesis
    proof (cases p)
      case (Literal l)
      from ih [of nb] obtain e where "build_string fmt args kw nb t = Inl e"
        by (auto simp: isl_def)
      with Literal show ?thesis by simp
    next
      case (Field a r)
      obtain res nb' where g: "get_field_object args kw nb a = (res, nb')"
        by (cases "get_field_object args kw nb a")
      from ih [of nb'] obtain e where "build_string fmt args kw nb' t = Inl e"
        by (auto simp: isl_def)
      with Field g show ?thesis
        by (simp split: sum.splits)
    qed
  qed
qed

lemma build_string_first_missing_key:
  "build_string fmt args kw nb pre = Inr s \<Longrightarrow> map_of kw n = None \<Longrightarrow>
     build_string fmt args kw nb (pre @ Field (Key n) rest # post) = Inl (KeyError n)"
proof (induction pre arbitrary: nb s)
  case Nil
  then show ?case by (simp add: keyword_def)
next
  case (Cons p pre)
  show ?case
  proof (cases p)
    case (Literal l)
    with Cons.prems obtain s' where "build_string fmt args kw nb pre = Inr s'"
      by (auto split: sum.splits)
    from Cons.IH [OF this Cons.prems(2)] Literal show ?thesis by simp
  next
    case (Field a r)
    with Cons.prems obtain obj nb' s' where
      g: "get_field_object args kw nb a = (Inr obj, nb')" and
      b: "build_string fmt args kw nb' pre = Inr s'"
      by (auto split: sum.splits prod.splits)
    from Cons.IH [OF b Cons.prems(2)] g Field Cons.prems(1) show ?thesis
      by (auto split: sum.splits)
  qed
qed

lemma get_field_object_cong:
  assumes "\<And>k. a = Key k \<Longrightarrow> map_of kw k = map_of kw' k"
  shows "get_field_object args kw nb a = get_field_object args kw' nb a"
proof (cases a)
  case (Key k)
  with assms show ?thesis by (simp add: keyword_def)
next
  case Auto
  then show ?thesis by (cases nb) simp_all
next
  case (Index i)
  then show ?thesis by (cases nb) simp_all
qed

lemma build_string_cong:
  "(\<And>k r. Field (Key k) r \<in> set t \<Longrightarrow> map_of kw k = map_of kw' k) \<Longrightarrow>
     build_string fmt args kw nb t = build_string fmt args kw' nb t"
proof (induction t arbitrary: nb)
  case Nil
  show ?case by simp
next
  case (Cons p t)
  have ih: "\<And>nb. build_string fmt args kw nb t = build_string fmt args kw' nb t"
    by (rule Cons.IH) (use Cons.prems in auto)
  show ?case
  proof (cases p)
    case (Literal l)
    then show ?thesis by (simp add: ih)
  next
    case (Field a r)
    have "get_field_object args kw nb a = get_field_object args kw' nb a"
      by (rule get_field_object_cong) (use Cons.prems Field in auto)
    then show ?thesis using Field by (simp add: ih split: prod.splits sum.splits)
  qed
qed

lemma str_format_unused_keyword:
  assumes "\<forall>r. Field (Key k) r \<notin> set t"
  shows "str_format fmt t args (AList.update k x kw) = str_format fmt t args kw"
  unfolding str_format_def
  by (rule build_string_cong) (use assms in \<open>auto simp: AList.update_conv'\<close>)

lemma get_template_log_resolved:
  "resolve_fields st flds [] = (Inr vals, st') \<Longrightarrow>
     get_template_log fmt now st template flds = (str_format fmt template [now] vals, st')"
  by (simp add: get_template_log_def)

text \<open>
  C5, as the code has it. When every field resolves and the template has a replacement
  field for a name that is no field, \<^verbatim>\<open>get_template_log\<close> fails with the exception that
  \<^verbatim>\<open>str.format\<close> raises, as it is; that exception is \<^verbatim>\<open>KeyError\<close> of the name when the
  pieces before the field format without error. A further field whose name the template
  does not use, and which resolves, does not change the outcome.
\<close>

theorem template_missing_placeholder:
  "(resolve_fields st flds [] = (Inr vals, st') \<and> Field (Key n) rest \<in> set template \<and>
      n \<notin> fst ` set flds \<longrightarrow>
      get_template_log fmt now st template flds = (str_format fmt template [now] vals, st') \<and>
      isl (str_format fmt template [now] vals) \<and>
      (template = pre @ Field (Key n) rest # post \<and> str_format fmt pre [now] vals = Inr s \<longrightarrow>
         get_template_log fmt now st template flds = (Inl (KeyError n), st'))) \<and>
   (resolve_fields st flds [] = (Inr vals, st') \<and> get_random_value st' v = (Inr x, st'') \<and>
      (\<forall>r. Field (Key k) r \<notin> set template) \<longrightarrow>
      fst (get_template_log fmt now st template (flds @ [(k, v)])) =
        fst (get_template_log fmt now st template flds))"
proof (intro conjI impI)
  assume h: "resolve_fields st flds [] = (Inr vals, st') \<and> Field (Key n) rest \<in> set template \<and>
      n \<notin> fst ` set flds"
  then have "fst ` set vals = fst ` set flds"
    using resolve_fields_keys [of st flds "[]" vals st'] by simp
  with h have none: "map_of vals n = None"
    by (simp add: map_of_eq_None_iff)
  show g: "get_template_log fmt now st template flds = (str_format fmt template [now] vals, st')"
    using h by (simp add: get_template_log_resolved)
  show "isl (str_format fmt template [now] vals)"
    unfolding str_format_def using h none by (blast intro: build_string_missing_key)
  assume "template = pre @ Field (Key n) rest # post \<and> str_format fmt pre [now] vals = Inr s"
  then show "get_template_log fmt now st template flds = (Inl (KeyError n), st')"
    using build_string_first_missing_key [of fmt "[now]" vals Unset pre s n rest post] none g
    by (simp add: str_format_def)
next
  assume h: "resolve_fields st flds [] = (Inr vals, st') \<and> get_random_value st' v = (Inr x, st'') \<and>
      (\<forall>r. Field (Key k) r \<notin> set template)"
  then have "resolve_fields st (flds @ [(k, v)]) [] = (Inr (AList.update k x vals), st'')"
    by (simp add: resolve_fields_append)
  then have "get_template_log fmt now st template (flds @ [(k, v)]) =
      (str_format fmt template [now] (AList.update k x vals), st'')"
    by (rule get_template_log_resolved)
  then show "fst (get_template_log fmt now st template (flds @ [(k, v)])) =
        fst (get_template_log fmt now st template flds)"
    using h by (simp add: get_template_log_resolved str_format_unused_keyword)
qed

theorem template_missing_placeholder_witness:
  "fst (get_template_log plain (PDateTime 0) blank_state
          [Field (Key ''now'') [], Literal '' - '', Field (Key ''user'') []]
          [(''user'', PList [PStr ''alice'', PStr ''bob''])]) = Inl (KeyError ''now'') \<and>
   fst (get_template_log plain (PDateTime 0) blank_state
          [Field Auto [], Literal '' - '', Field (Key ''user'') []]
          ([(''user'', PList [PStr ''alice'', PStr ''bob''])] @ [(''host'', PList [PStr ''h1''])])) =
     Inr ''* - bob''"
  using template_missing_placeholder [of blank_state "[(''user'', PList [PStr ''alice'', PStr ''bob''])]"
      "[(''user'', PStr ''bob'')]" "snd (resolve_fields blank_state [(''user'', PList [PStr ''alice'', PStr ''bob''])] [])"
      "''now''" "[]" "[Field (Key ''now'') [], Literal '' - '', Field (Key ''user'') []]"
      plain "PDateTime 0" "[]" "[Literal '' - '', Field (Key ''user'') []]" "[]"]
    template_missing_placeholder [of blank_state "[(''user'', PList [PStr ''alice'', PStr ''bob''])]"
      "[(''user'', PStr ''bob'')]" "snd (resolve_fields blank_state [(''user'', PList [PStr ''alice'', PStr ''bob''])] [])"
      "''now''" "[]" "[Field Auto [], Literal '' - '', Field (Key ''user'') []]"
      plain "PDateTime 0" "[]" "[]" "[]" "PList [PStr ''h1'']" "PStr ''h1''"
      "snd (get_random_value (snd (resolve_fields blank_state [(''user'', PList [PStr ''alice'', PStr ''bob''])] [])) (PList [PStr ''h1'']))"
      "''host''"]
  by (simp add: blank_state_def choice_def str_format_def get_template_log_def plain_def positional_def keyword_def)

text \<open>
  The exception that leaves \<^verbatim>\<open>get_template_log\<close> for the template
  \<^verbatim>\<open>"login by {user}"\<close> and the one field \<^verbatim>\<open>host\<close> is the \<^verbatim>\<open>KeyError\<close> itself: the
  module has no exception class that could wrap it and no handler around the call.
\<close>

theorem template_missing_placeholder_counterexample:
  "get_template_log plain (PDateTime 0) stub_state
     [Literal ''login by '', Field (Key ''user'') []] [(''host'', PStr ''func_echo'')] =
   (Inl (KeyError ''user''), stub_state)"
  by (simp add: get_template_log_def str_format_def keyword_def stub_state_def
      exec_function_str_def split_def is_space_def get_function_def hasattr_def echo_def)

subsection \<open>Loading the provider modules\<close>

lemma import_module_cached:
  "sys_modules ist name = Some m \<Longrightarrow> import_module imp ist name = (Inr m, ist)"
  by (simp add: import_module_def)

lemma import_module_result:
  assumes "import_module imp ist name = (Inr m, ist')"
  shows "sys_modules ist' name = Some m \<and> sys_modules ist \<subseteq>\<^sub>m sys_modules ist'"
  using assms
  by (auto simp: import_module_def map_le_def split: option.splits sum.splits)

lemma load_loop_cache_grows:
  "load_loop imp files pm ist = (Inr reg, ist') \<Longrightarrow> sys_modules ist \<subseteq>\<^sub>m sys_modules ist'"
proof (induction files arbitrary: pm ist)
  case Nil
  then show ?case by simp
next
  case (Cons f files)
  show ?case
  proof (cases "endswith f ''.py'' \<and> f \<noteq> ''__init__.py''")
    case False
    with Cons show ?thesis by auto
  next
    case True
    define name where "name = take (length f - 3) f"
    obtain res ist1 where i: "import_module imp ist name = (res, ist1)"
      by (cases "import_module imp ist name")
    with Cons.prems True obtain m where m: "res = Inr m"
      and l: "load_loop imp files (AList.update name m pm) ist1 = (Inr reg, ist')"
      by (cases res) (auto simp: name_def Let_def)
    have "sys_modules ist \<subseteq>\<^sub>m sys_modules ist1"
      using import_module_result i m by blast
    moreover have "sys_modules ist1 \<subseteq>\<^sub>m sys_modules ist'"
      using Cons.IH l by blast
    ultimately show ?thesis by (rule map_le_trans)
  qed
qed

lemma load_loop_replay:
  "load_loop imp files pm ist = (Inr reg, ist') \<Longrightarrow> sys_modules ist' \<subseteq>\<^sub>m sys_modules ist2 \<Longrightarrow>
     load_loop imp files pm ist2 = (Inr reg, ist2)"
proof (induction files arbitrary: pm ist)
  case Nil
  then show ?case by simp
next
  case (Cons f files)
  show ?case
  proof (cases "endswith f ''.py'' \<and> f \<noteq> ''__init__.py''")
    case False
    with Cons show ?thesis by auto
  next
    case True
    define name where "name = take (length f - 3) f"
    obtain res ist1 where i: "import_module imp ist name = (res, ist1)"
      by (cases "import_module imp ist name")
    with Cons.prems True obtain m where m: "res = Inr m"
      and l: "load_loop imp files (AList.update name m pm) ist1 = (Inr reg, ist')"
      by (cases res) (auto simp: name_def Let_def)
    have "sys_modules ist1 name = Some m"
      using import_module_result i m by blast
    moreover have "sys_modules ist1 \<subseteq>\<^sub>m sys_modules ist'"
      using load_loop_cache_grows l by blast
    ultimately have "sys_modules ist2 name = Some m"
      using Cons.prems(2) by (metis domI map_le_def)
    then have "import_module imp ist2 name = (Inr m, ist2)"
      by (rule import_module_cached)
    moreover have "load_loop imp files (AList.update name m pm) ist2 = (Inr reg, ist2)"
      using Cons.IH [OF l Cons.prems(2)] .
    ultimately show ?thesis using True by (simp add: name_def)
  qed
qed

lemma load_loop_distinct:
  "load_loop imp files pm ist = (Inr reg, ist') \<Longrightarrow> distinct (map fst pm) \<Longrightarrow>
     distinct (map fst reg)"
proof (induction files arbitrary: pm ist)
  case Nil
  then show ?case by simp
next
  case (Cons f files)
  show ?case
  proof (cases "endswith f ''.py'' \<and> f \<noteq> ''__init__.py''")
    case False
    with Cons show ?thesis by auto
  next
    case True
    define name where "name = take (length f - 3) f"
    obtain res ist1 where i: "import_module imp ist name = (res, ist1)"
      by (cases "import_module imp ist name")
    with Cons.prems True obtain m where m: "res = Inr m"
      and l: "load_loop imp files (AList.update name m pm) ist1 = (Inr reg, ist')"
      by (cases res) (auto simp: name_def Let_def)
    show ?thesis
      using Cons.IH [OF l] Cons.prems(2) by (simp add: AList.distinct_update)
  qed
qed

text \<open>
  C8. When \<^verbatim>\<open>load_provider_modules\<close> has returned a registry, calling it again on the
  same directory listing, in the state the first call left, returns the same registry:
  the same module names in the same order, bound to the same modules (the second call
  finds each of them in \<^verbatim>\<open>sys.modules\<close>). The names of a registry are distinct. The
  second call leaves the module cache as it is and puts the directory on \<^verbatim>\<open>sys.path\<close>
  once more.
\<close>

theorem load_provider_modules_idempotent:
  assumes "load_provider_modules imp providers_dir listing ist = (Inr reg, ist')"
  shows "load_provider_modules imp providers_dir listing ist' =
           (Inr reg, ist'\<lparr>sys_path := providers_dir # sys_path ist'\<rparr>) \<and>
         distinct (map fst reg)"
proof
  have "sys_modules ist' \<subseteq>\<^sub>m sys_modules (ist'\<lparr>sys_path := providers_dir # sys_path ist'\<rparr>)"
    by simp
  then show "load_provider_modules imp providers_dir listing ist' =
           (Inr reg, ist'\<lparr>sys_path := providers_dir # sys_path ist'\<rparr>)"
    using assms load_loop_replay unfolding load_provider_modules_def by blast
  show "distinct (map fst reg)"
    using assms load_loop_distinct [of imp listing "[]"] unfolding load_provider_modules_def
    by simp
qed

theorem load_provider_modules_idempotent_witness:
  "fst (load_provider_modules stub_importer ''providers''
         [''net.py'', ''__init__.py'', ''README.md'', ''web.py'']
         (snd (load_provider_modules stub_importer ''providers''
                [''net.py'', ''__init__.py'', ''README.md'', ''web.py'']
                \<lparr>sys_path = [], sys_modules = Map.empty\<rparr>))) =
   Inr [(''net'', [''randip'' \<mapsto> Function shout]),
        (''web'', [''echo'' \<mapsto> Function shout, ''randuri'' \<mapsto> Function shout])]"
  using load_provider_modules_idempotent [of stub_importer "''providers''"
      "[''net.py'', ''__init__.py'', ''README.md'', ''web.py'']"
      "\<lparr>sys_path = [], sys_modules = Map.empty\<rparr>"
      "[(''net'', [''randip'' \<mapsto> Function shout]),
        (''web'', [''echo'' \<mapsto> Function shout, ''randuri'' \<mapsto> Function shout])]"
      "snd (load_provider_modules stub_importer ''providers''
                [''net.py'', ''__init__.py'', ''README.md'', ''web.py'']
                \<lparr>sys_path = [], sys_modules = Map.empty\<rparr>)"]
  by (simp add: load_provider_modules_def import_module_def stub_importer_def endswith_def Let_def)

end
